theory Spec2Isabelle
  imports Complex_Main
begin

section \<open>The image converter of \<^verbatim>\<open>src/script.js\<close>\<close>

text \<open>
  The class \<^verbatim>\<open>ImageConverter\<close> holds one field that it mutates, \<^verbatim>\<open>currentFile\<close>, and two
  constant tables of format identifiers. Everything else it reads and writes lives in the
  page: the value of the format selector and of the quality slider, the class \<^verbatim>\<open>hidden\<close>
  of the sections, the text of the message slots, the state of the convert button and the
  download link. Each method is a function from the state before the call to the state
  after it.

  The markup of the page is not part of the source. The model takes every element that the
  script looks up by id to exist, so \<^verbatim>\<open>document.getElementById\<close> never returns null; under
  that reading the synchronous body of \<^verbatim>\<open>convertImage\<close> cannot throw and its \<^verbatim>\<open>catch\<close>
  branch is not reached. The keyboard focus that \<^verbatim>\<open>showError\<close> requests is not tracked.

  Strings are \<^typ>\<open>string\<close>; sizes and pixel dimensions are natural numbers.
\<close>

subsection \<open>Data\<close>

text \<open>A \<^verbatim>\<open>File\<close> as the script uses it: \<^verbatim>\<open>name\<close>, \<^verbatim>\<open>type\<close> and \<^verbatim>\<open>size\<close> (in bytes).\<close>

record source_file =
  file_name :: string
  file_type :: string
  file_size :: nat

text \<open>A decoded image, as far as the script reads it: \<^verbatim>\<open>img.width\<close> and \<^verbatim>\<open>img.height\<close>.\<close>

record image =
  img_width :: nat
  img_height :: nat

text \<open>
  The calls that leave the page for the host, in the order they are issued. The journal is
  what a run of the pipeline can be observed to have asked of the browser: the progress
  reports, the file read, the assignment of \<^verbatim>\<open>img.src\<close>, the canvas operations, the
  encoding, and the timer.
\<close>

datatype host_call =
    UpdateProgress nat string
  | ReadAsDataURL source_file
  | ImgSrc string
  | CanvasSize nat nat
  | FillStyle string
  | FillRect nat nat nat nat
  | DrawImage image nat nat
  | ToDataURL string rat
  | SetTimeout nat

record converter =
  currentFile :: "source_file option"
  formatSelect :: string
  qualitySlider :: rat
  hidden :: "string set"
  errorMessage :: string
  progressBar :: nat
  progressText :: string
  convertBtn_disabled :: bool
  convertBtn_processing :: bool
  downloadLink_href :: string
  downloadLink_download :: string
  downloadInfo :: string
  journal :: "host_call list"

text \<open>
  \<^verbatim>\<open>hidden\<close> is the set of element ids that carry the class \<^verbatim>\<open>hidden\<close>; \<^verbatim>\<open>progressBar\<close> is
  the number \<^verbatim>\<open>percent\<close> of the width \<^verbatim>\<open>`${percent}%`\<close>; \<^verbatim>\<open>qualitySlider\<close> is the slider's
  value read as a number.
\<close>

datatype error = TypeError

definition supportedFormats :: "string list" where
  "supportedFormats =
     [''jpeg'', ''png'', ''webp'', ''gif'', ''bmp'', ''ico'', ''tiff'', ''svg'']"

definition unsupportedFormats :: "string list" where
  "unsupportedFormats =
     [''raw'', ''cr2'', ''nef'', ''arw'', ''dng'', ''psd'', ''ai'', ''eps'', ''heic'', ''exr'',
      ''apng'', ''jp2'']"

subsection \<open>Strings\<close>

text \<open>\<^verbatim>\<open>s.startsWith(p)\<close>.\<close>

definition startsWith :: "string \<Rightarrow> string \<Rightarrow> bool" where
  "startsWith s p = (take (length p) s = p)"

text \<open>
  The character class \<^verbatim>\<open>[a-zA-Z0-9-_]\<close>: three ranges and the two single characters
  \<^verbatim>\<open>-\<close> and \<^verbatim>\<open>_\<close>. The script removes every character outside it.
\<close>

definition in_class :: "char \<Rightarrow> bool" where
  "in_class c =
     (let n = (of_char c :: nat)
      in (97 \<le> n \<and> n \<le> 122) \<or> (65 \<le> n \<and> n \<le> 90) \<or> (48 \<le> n \<and> n \<le> 57)
         \<or> c = CHR ''-'' \<or> c = CHR ''_'')"

text \<open>\<^verbatim>\<open>s.replace(/[^a-zA-Z0-9-_]/g, '')\<close>.\<close>

definition strip_name :: "string \<Rightarrow> string" where
  "strip_name s = filter in_class s"

text \<open>
  \<^verbatim>\<open>s.split(sep)\<close> for a separator of one character: the pieces between the separators,
  one piece more than there are separators, so never an empty array.
\<close>

fun split_js :: "char \<Rightarrow> string \<Rightarrow> string list" where
  "split_js sep [] = [[]]"
| "split_js sep (c # cs) =
     (if c = sep then [] # split_js sep cs
      else (case split_js sep cs of
              [] \<Rightarrow> [[c]]
            | p # ps \<Rightarrow> (c # p) # ps))"

text \<open>
  \<^verbatim>\<open>arr[0]\<close> inside a template literal: the first piece, and the text \<^verbatim>\<open>undefined\<close> for an
  empty array.
\<close>

definition first_piece :: "string list \<Rightarrow> string" where
  "first_piece ps = (case ps of [] \<Rightarrow> ''undefined'' | p # _ \<Rightarrow> p)"

text \<open>The two constants of \<^verbatim>\<open>showDownload\<close>: \<^verbatim>\<open>originalName\<close> and \<^verbatim>\<open>fileName\<close>.\<close>

definition originalName :: "string \<Rightarrow> string" where
  "originalName nm = first_piece (split_js CHR ''.'' (strip_name nm))"

definition fileName :: "string \<Rightarrow> string \<Rightarrow> string" where
  "fileName nm format = originalName nm @ ''_converted.'' @ format"

subsection \<open>The small methods\<close>

definition showElement :: "string \<Rightarrow> converter \<Rightarrow> converter" where
  "showElement i s = s\<lparr>hidden := hidden s - {i}\<rparr>"

definition hideElement :: "string \<Rightarrow> converter \<Rightarrow> converter" where
  "hideElement i s = s\<lparr>hidden := insert i (hidden s)\<rparr>"

definition showError :: "string \<Rightarrow> converter \<Rightarrow> converter" where
  "showError message s = showElement ''errorSection'' (s\<lparr>errorMessage := message\<rparr>)"

definition clearError :: "converter \<Rightarrow> converter" where
  "clearError s = hideElement ''errorSection'' (s\<lparr>errorMessage := ''''\<rparr>)"

definition showProgress :: "converter \<Rightarrow> converter" where
  "showProgress s =
     (showElement ''progressSection'' s)
       \<lparr>convertBtn_disabled := True, convertBtn_processing := True\<rparr>"

definition hideProgress :: "converter \<Rightarrow> converter" where
  "hideProgress s =
     (hideElement ''progressSection'' s)
       \<lparr>convertBtn_disabled := False, convertBtn_processing := False\<rparr>"

definition call :: "host_call \<Rightarrow> converter \<Rightarrow> converter" where
  "call c s = s\<lparr>journal := journal s @ [c]\<rparr>"

definition updateProgress :: "nat \<Rightarrow> string \<Rightarrow> converter \<Rightarrow> converter" where
  "updateProgress percent text s =
     call (UpdateProgress percent text) (s\<lparr>progressBar := percent, progressText := text\<rparr>)"

subsection \<open>Selecting a file\<close>

text \<open>
  \<^verbatim>\<open>showImagePreview\<close> starts a read of the file and returns. The callback of that read
  writes the preview elements only (\<^verbatim>\<open>previewImg\<close>, \<^verbatim>\<open>fileName\<close>, \<^verbatim>\<open>fileInfo\<close>,
  \<^verbatim>\<open>imagePreview\<close>), which no method reads; it is left out.
\<close>

definition showImagePreview :: "source_file \<Rightarrow> converter \<Rightarrow> converter" where
  "showImagePreview f s = call (ReadAsDataURL f) s"

text \<open>The argument is \<^verbatim>\<open>None\<close> for a missing file (\<^verbatim>\<open>files[0]\<close> of an empty selection).\<close>

definition handleFileSelect :: "source_file option \<Rightarrow> converter \<Rightarrow> converter" where
  "handleFileSelect file s =
     (case file of
        None \<Rightarrow> showError ''Please select a valid image file.'' s
      | Some f \<Rightarrow>
          if \<not> startsWith (file_type f) ''image/''
          then showError ''Please select a valid image file.'' s
          else if file_size f > 10 * 1024 * 1024
          then showError ''File is too large. Maximum size is 10MB.'' s
          else hideElement ''errorSection''
                 (showElement ''formatSection''
                   (showImagePreview f (s\<lparr>currentFile := Some f\<rparr>))))"

subsection \<open>Choosing a format\<close>

definition handleFormatChange :: "converter \<Rightarrow> converter" where
  "handleFormatChange s =
     (let format = formatSelect s
      in if format = ''''
         then hideElement ''qualitySection'' (hideElement ''convertBtn'' s)
         else if format \<in> set unsupportedFormats
         then hideElement ''qualitySection''
                (hideElement ''convertBtn''
                  (showError
                     ''Conversion for this format is not supported in-browser. Use a desktop app instead.''
                     s))
         else showElement ''convertBtn''
                ((if format \<in> set [''jpeg'', ''webp'']
                  then showElement ''qualitySection''
                  else hideElement ''qualitySection'')
                   (hideElement ''errorSection'' s)))"

subsection \<open>Converting\<close>

text \<open>
  \<^verbatim>\<open>convertImage\<close> up to its return: the guard, the first progress report and the start of
  the file read. The two constants \<^verbatim>\<open>format\<close> and \<^verbatim>\<open>quality\<close> are read here and kept by
  the callbacks, which take them as arguments below.
\<close>

definition convertImage :: "converter \<Rightarrow> converter" where
  "convertImage s =
     (case currentFile s of
        None \<Rightarrow> s
      | Some f \<Rightarrow>
          if formatSelect s = '''' then s
          else call (ReadAsDataURL f)
                 (updateProgress 20 ''Loading image...'' (showProgress s)))"

text \<open>\<^verbatim>\<open>reader.onload\<close>: the data URL of the file becomes the source of the image.\<close>

definition reader_onload :: "string \<Rightarrow> converter \<Rightarrow> converter" where
  "reader_onload result s = call (ImgSrc result) s"

definition mimeType :: "string \<Rightarrow> string" where
  "mimeType format = (if format = ''jpeg'' then ''image/jpeg'' else ''image/'' @ format)"

text \<open>
  \<^verbatim>\<open>img.onload\<close>, for the decoded image \<^verbatim>\<open>img\<close> and the data URL that the host's encoder
  returns from \<^verbatim>\<open>canvas.toDataURL\<close>.
\<close>

definition img_onload ::
  "string \<Rightarrow> rat \<Rightarrow> image \<Rightarrow> string \<Rightarrow> converter \<Rightarrow> converter" where
  "img_onload format quality img convertedDataUrl s =
     (let s1 = call (CanvasSize (img_width img) (img_height img)) s;
          s2 = updateProgress 50 ''Processing image...'' s1;
          s3 = (if format = ''jpeg''
                then call (FillRect 0 0 (img_width img) (img_height img))
                       (call (FillStyle ''white'') s2)
                else s2);
          s4 = call (DrawImage img 0 0) s3;
          s5 = updateProgress 80 ''Converting format...'' s4;
          s6 = call (ToDataURL (mimeType format) quality) s5;
          s7 = updateProgress 100 ''Complete!'' s6
      in call (SetTimeout 500) s7)"

definition img_onerror :: "converter \<Rightarrow> converter" where
  "img_onerror s =
     hideProgress (showError ''Failed to load image. Please try a different file.'' s)"

text \<open>
  \<^verbatim>\<open>showDownload\<close>, run by the timer. Reading \<^verbatim>\<open>this.currentFile.name\<close> throws when no file
  is held.
\<close>

definition showDownload :: "string \<Rightarrow> string \<Rightarrow> converter \<Rightarrow> error + converter" where
  "showDownload dataUrl format s =
     (case currentFile s of
        None \<Rightarrow> Inl TypeError
      | Some f \<Rightarrow>
          Inr (showElement ''downloadSection''
                (hideProgress
                  (s\<lparr>downloadLink_href := dataUrl,
                     downloadLink_download := fileName (file_name f) format,
                     downloadInfo := ''File: '' @ fileName (file_name f) format\<rparr>))))"

text \<open>
  A run of the conversion in which nothing fails and nothing else happens in between: the
  click, the completed file read (\<^verbatim>\<open>result\<close>), the decoded image (\<^verbatim>\<open>img\<close>), the encoder's
  answer (\<^verbatim>\<open>convertedDataUrl\<close>) and the timer.
\<close>

definition convert_run :: "string \<Rightarrow> image \<Rightarrow> string \<Rightarrow> converter \<Rightarrow> error + converter" where
  "convert_run result img convertedDataUrl s =
     (let format = formatSelect s;
          quality = qualitySlider s / 100
      in showDownload convertedDataUrl format
           (img_onload format quality img convertedDataUrl
             (reader_onload result (convertImage s))))"

text \<open>The calls issued between two states, and the percentages among them.\<close>

definition issued :: "converter \<Rightarrow> converter \<Rightarrow> host_call list" where
  "issued s s' = drop (length (journal s)) (journal s')"

fun percentages :: "host_call list \<Rightarrow> nat list" where
  "percentages [] = []"
| "percentages (UpdateProgress p t # cs) = p # percentages cs"
| "percentages (c # cs) = percentages cs"

text \<open>
  A page to run the methods on: no file held, nothing chosen, every section hidden.
\<close>

definition page0 :: converter where
  "page0 =
     \<lparr>currentFile = None, formatSelect = '''', qualitySlider = 80,
      hidden = {''formatSection'', ''convertBtn'', ''qualitySection'', ''progressSection'',
                ''downloadSection'', ''errorSection'', ''imagePreview''},
      errorMessage = '''', progressBar = 0, progressText = '''',
      convertBtn_disabled = False, convertBtn_processing = False,
      downloadLink_href = '''', downloadLink_download = '''', downloadInfo = '''',
      journal = []\<rparr>"

definition photo :: source_file where
  "photo = \<lparr>file_name = ''my photo!!.png'', file_type = ''image/png'', file_size = 2048\<rparr>"

text \<open>A text file and an image, each one byte over the limit of \<^verbatim>\<open>10 * 1024 * 1024\<close>.\<close>

definition memo :: source_file where
  "memo = \<lparr>file_name = ''notes.txt'', file_type = ''text/plain'', file_size = 10485761\<rparr>"

definition scan :: source_file where
  "scan = \<lparr>file_name = ''scan.png'', file_type = ''image/png'', file_size = 10485761\<rparr>"

section \<open>Properties\<close>

lemmas dom_defs = showElement_def hideElement_def showError_def clearError_def
  showProgress_def hideProgress_def call_def updateProgress_def

subsection \<open>The name of the download\<close>

lemma in_class_dot: "\<not> in_class CHR ''.''"
  by (simp add: in_class_def)

lemma split_js_no_sep: "sep \<notin> set s \<Longrightarrow> split_js sep s = [s]"
  by (induction s) auto

text \<open>
  The dot is outside the character class, so the stripped name holds none, the split has
  one piece, and that piece is the whole stripped name: the letters of the extension stay.
\<close>

lemma originalName_eq: "originalName nm = filter in_class nm"
proof -
  have "CHR ''.'' \<notin> set (strip_name nm)"
    using in_class_dot by (auto simp: strip_name_def)
  then show ?thesis
    by (simp add: originalName_def split_js_no_sep first_piece_def strip_name_def)
qed

lemma fileName_eq: "fileName nm format = filter in_class nm @ ''_converted.'' @ format"
  by (simp add: fileName_def originalName_eq)

lemma fileName_photo: "fileName ''my photo!!.png'' ''webp'' = ''myphotopng_converted.webp''"
  by (simp add: fileName_eq in_class_def)

text \<open>
  Claim C1. For the file named \<^verbatim>\<open>my photo!!.png\<close> and the target format \<^verbatim>\<open>webp\<close> the
  claim expects the download name \<^verbatim>\<open>myphoto_converted.webp\<close>. \<^verbatim>\<open>showDownload\<close> succeeds on
  a page that holds this file and names the download \<^verbatim>\<open>myphotopng_converted.webp\<close>: the
  replacement has removed the dot before the split looks for it.
\<close>

theorem showDownload_photo_name:
  "(case showDownload ''data:image/webp;base64,'' ''webp'' (page0\<lparr>currentFile := Some photo\<rparr>) of
      Inl e \<Rightarrow> False
    | Inr s' \<Rightarrow>
        downloadLink_download s' = ''myphotopng_converted.webp''
        \<and> downloadLink_download s' \<noteq> ''myphoto_converted.webp'')"
  by (simp add: showDownload_def photo_def fileName_photo dom_defs)

subsection \<open>Selecting a file\<close>

text \<open>
  Claim C2, as stated, fails: a text file of more than 10 MiB is turned away by the check
  of the media type, which comes first, with the message for an invalid file and not the
  message for a file that is too large.
\<close>

theorem handleFileSelect_large_text_file:
  "10 * 1024 * 1024 < file_size memo
   \<and> errorMessage (handleFileSelect (Some memo) page0) = ''Please select a valid image file.''
   \<and> errorMessage (handleFileSelect (Some memo) page0)
       \<noteq> ''File is too large. Maximum size is 10MB.''"
  by (simp add: handleFileSelect_def memo_def startsWith_def dom_defs)

text \<open>
  Claim C2, amended. For every file of more than 10 MiB, \<^verbatim>\<open>handleFileSelect\<close> shows an
  error: the message for a file that is too large when the media type starts with
  \<^verbatim>\<open>image/\<close>, and the message for an invalid file otherwise.
\<close>

theorem handleFileSelect_too_large:
  "10 * 1024 * 1024 < file_size f \<Longrightarrow>
   errorMessage (handleFileSelect (Some f) s) =
     (if startsWith (file_type f) ''image/''
      then ''File is too large. Maximum size is 10MB.''
      else ''Please select a valid image file.'')
   \<and> ''errorSection'' \<notin> hidden (handleFileSelect (Some f) s)"
  by (simp add: handleFileSelect_def dom_defs)

theorem handleFileSelect_too_large_witness:
  "10 * 1024 * 1024 < file_size scan \<and> startsWith (file_type scan) ''image/''
   \<and> errorMessage (handleFileSelect (Some scan) page0)
       = ''File is too large. Maximum size is 10MB.''
   \<and> ''errorSection'' \<notin> hidden (handleFileSelect (Some scan) page0)"
proof -
  have h: "10 * 1024 * 1024 < file_size scan"
    by (simp add: scan_def)
  have t: "startsWith (file_type scan) ''image/''"
    by (simp add: scan_def startsWith_def)
  show ?thesis
    using h t handleFileSelect_too_large [OF h, of page0] by simp
qed

text \<open>
  Claim C9. When \<^verbatim>\<open>handleFileSelect\<close> turns a file away, because its media type does not
  start with \<^verbatim>\<open>image/\<close> or because it is larger than 10 MiB, the file held in
  \<^verbatim>\<open>currentFile\<close> is the one held before, no read of the new file is started, and an error
  message is on display.
\<close>

theorem handleFileSelect_reject_keeps_file:
  "\<not> startsWith (file_type f) ''image/'' \<or> 10 * 1024 * 1024 < file_size f \<Longrightarrow>
   currentFile (handleFileSelect (Some f) s) = currentFile s
   \<and> journal (handleFileSelect (Some f) s) = journal s
   \<and> ''errorSection'' \<notin> hidden (handleFileSelect (Some f) s)
   \<and> errorMessage (handleFileSelect (Some f) s) \<noteq> ''''"
  by (auto simp: handleFileSelect_def dom_defs)

theorem handleFileSelect_reject_keeps_file_witness:
  "10 * 1024 * 1024 < file_size scan
   \<and> currentFile (handleFileSelect (Some scan) (handleFileSelect (Some photo) page0)) = Some photo
   \<and> ''errorSection'' \<notin> hidden (handleFileSelect (Some scan) (handleFileSelect (Some photo) page0))
   \<and> errorMessage (handleFileSelect (Some scan) (handleFileSelect (Some photo) page0)) \<noteq> ''''"
proof -
  have h: "\<not> startsWith (file_type scan) ''image/'' \<or> 10 * 1024 * 1024 < file_size scan"
    by (simp add: scan_def)
  have a: "currentFile (handleFileSelect (Some photo) page0) = Some photo"
    by (simp add: handleFileSelect_def showImagePreview_def photo_def startsWith_def dom_defs)
  have b: "10 * 1024 * 1024 < file_size scan"
    by (simp add: scan_def)
  show ?thesis
    using a b handleFileSelect_reject_keeps_file [OF h, of "handleFileSelect (Some photo) page0"]
    by simp
qed

subsection \<open>Choosing a format\<close>

lemma supported_not_rejected:
  "x \<in> set supportedFormats \<Longrightarrow> x \<noteq> '''' \<and> x \<notin> set unsupportedFormats"
  by (auto simp: supportedFormats_def unsupportedFormats_def)

lemma rejected_not_empty: "x \<in> set unsupportedFormats \<Longrightarrow> x \<noteq> ''''"
  by (auto simp: unsupportedFormats_def)

text \<open>
  Claim C3. For every format of the rejected table, \<^verbatim>\<open>handleFormatChange\<close> shows the
  message that the format is not supported in the browser and leaves the convert button
  hidden.
\<close>

theorem handleFormatChange_rejected:
  "formatSelect s \<in> set unsupportedFormats \<Longrightarrow>
   errorMessage (handleFormatChange s) =
     ''Conversion for this format is not supported in-browser. Use a desktop app instead.''
   \<and> ''errorSection'' \<notin> hidden (handleFormatChange s)
   \<and> ''convertBtn'' \<in> hidden (handleFormatChange s)"
proof -
  assume r: "formatSelect s \<in> set unsupportedFormats"
  with rejected_not_empty [OF r] show ?thesis
    by (simp add: handleFormatChange_def Let_def dom_defs)
qed

theorem handleFormatChange_rejected_witness:
  "''heic'' \<in> set unsupportedFormats
   \<and> errorMessage (handleFormatChange (page0\<lparr>formatSelect := ''heic''\<rparr>)) =
       ''Conversion for this format is not supported in-browser. Use a desktop app instead.''
   \<and> ''errorSection'' \<notin> hidden (handleFormatChange (page0\<lparr>formatSelect := ''heic''\<rparr>))
   \<and> ''convertBtn'' \<in> hidden (handleFormatChange (page0\<lparr>formatSelect := ''heic''\<rparr>))"
proof -
  have h: "formatSelect (page0\<lparr>formatSelect := ''heic''\<rparr>) \<in> set unsupportedFormats"
    by (simp add: unsupportedFormats_def)
  show ?thesis
    using h handleFormatChange_rejected [OF h] by simp
qed

text \<open>
  Claim C4. For every format of the convertible table, \<^verbatim>\<open>handleFormatChange\<close> reveals the
  convert button, and the quality section is visible exactly when the format is \<^verbatim>\<open>jpeg\<close>
  or \<^verbatim>\<open>webp\<close>.
\<close>

theorem handleFormatChange_convertible:
  "formatSelect s \<in> set supportedFormats \<Longrightarrow>
   ''convertBtn'' \<notin> hidden (handleFormatChange s)
   \<and> (''qualitySection'' \<notin> hidden (handleFormatChange s)
        \<longleftrightarrow> formatSelect s = ''jpeg'' \<or> formatSelect s = ''webp'')"
proof -
  assume c: "formatSelect s \<in> set supportedFormats"
  from supported_not_rejected [OF c] show ?thesis
    by (simp add: handleFormatChange_def Let_def dom_defs)
qed

theorem handleFormatChange_convertible_witness:
  "''webp'' \<in> set supportedFormats
   \<and> ''convertBtn'' \<notin> hidden (handleFormatChange (page0\<lparr>formatSelect := ''webp''\<rparr>))
   \<and> ''qualitySection'' \<notin> hidden (handleFormatChange (page0\<lparr>formatSelect := ''webp''\<rparr>))
   \<and> ''png'' \<in> set supportedFormats
   \<and> ''convertBtn'' \<notin> hidden (handleFormatChange (page0\<lparr>formatSelect := ''png''\<rparr>))
   \<and> ''qualitySection'' \<in> hidden (handleFormatChange (page0\<lparr>formatSelect := ''png''\<rparr>))"
proof -
  have w: "formatSelect (page0\<lparr>formatSelect := ''webp''\<rparr>) \<in> set supportedFormats"
    by (simp add: supportedFormats_def)
  have p: "formatSelect (page0\<lparr>formatSelect := ''png''\<rparr>) \<in> set supportedFormats"
    by (simp add: supportedFormats_def)
  show ?thesis
    using w p handleFormatChange_convertible [OF w] handleFormatChange_convertible [OF p]
    by simp
qed

text \<open>
  Claim C10. For every format that is not empty and is in neither table,
  \<^verbatim>\<open>handleFormatChange\<close> does what it does for a convertible format without a quality
  setting: the convert button is revealed, the error section is hidden, the quality section
  is hidden and the message slot keeps its text.
\<close>

theorem handleFormatChange_unlisted:
  "formatSelect s \<noteq> '''' \<Longrightarrow> formatSelect s \<notin> set supportedFormats \<Longrightarrow>
   formatSelect s \<notin> set unsupportedFormats \<Longrightarrow>
   ''convertBtn'' \<notin> hidden (handleFormatChange s)
   \<and> ''errorSection'' \<in> hidden (handleFormatChange s)
   \<and> ''qualitySection'' \<in> hidden (handleFormatChange s)
   \<and> errorMessage (handleFormatChange s) = errorMessage s"
proof -
  assume n: "formatSelect s \<noteq> ''''" and c: "formatSelect s \<notin> set supportedFormats"
    and r: "formatSelect s \<notin> set unsupportedFormats"
  from c have "formatSelect s \<noteq> ''jpeg''" and "formatSelect s \<noteq> ''webp''"
    by (auto simp: supportedFormats_def)
  with n r show ?thesis
    by (simp add: handleFormatChange_def Let_def dom_defs)
qed

theorem handleFormatChange_unlisted_witness:
  "''avif'' \<noteq> '''' \<and> ''avif'' \<notin> set supportedFormats \<and> ''avif'' \<notin> set unsupportedFormats
   \<and> ''convertBtn'' \<notin> hidden (handleFormatChange (page0\<lparr>formatSelect := ''avif''\<rparr>))
   \<and> ''errorSection'' \<in> hidden (handleFormatChange (page0\<lparr>formatSelect := ''avif''\<rparr>))"
proof -
  have n: "formatSelect (page0\<lparr>formatSelect := ''avif''\<rparr>) \<noteq> ''''"
    by simp
  have c: "formatSelect (page0\<lparr>formatSelect := ''avif''\<rparr>) \<notin> set supportedFormats"
    by (simp add: supportedFormats_def)
  have r: "formatSelect (page0\<lparr>formatSelect := ''avif''\<rparr>) \<notin> set unsupportedFormats"
    by (simp add: unsupportedFormats_def)
  show ?thesis
    using n c r handleFormatChange_unlisted [OF n c r] by simp
qed

subsection \<open>Clearing the error\<close>

text \<open>
  Claim C7. \<^verbatim>\<open>clearError\<close> empties the message slot and hides the error section, and the
  file held in \<^verbatim>\<open>currentFile\<close> is the one held before.
\<close>

theorem clearError_keeps_file:
  "currentFile (clearError s) = currentFile s
   \<and> errorMessage (clearError s) = ''''
   \<and> ''errorSection'' \<in> hidden (clearError s)"
  by (simp add: dom_defs)

subsection \<open>Converting\<close>

lemma convertImage_journal:
  "currentFile s = Some f \<Longrightarrow> formatSelect s \<noteq> '''' \<Longrightarrow>
   journal (convertImage s) =
     journal s @ [UpdateProgress 20 ''Loading image...'', ReadAsDataURL f]"
  by (simp add: convertImage_def dom_defs)

text \<open>
  Claim C5, as stated, fails: with a file held and the rejected format \<^verbatim>\<open>heic\<close> selected,
  which is outside the convertible table, \<^verbatim>\<open>convertImage\<close> changes the page, reports
  progress and starts the read of the file.
\<close>

theorem convertImage_heic_runs:
  "''heic'' \<notin> set supportedFormats
   \<and> currentFile (page0\<lparr>currentFile := Some photo, formatSelect := ''heic''\<rparr>) = Some photo
   \<and> convertImage (page0\<lparr>currentFile := Some photo, formatSelect := ''heic''\<rparr>)
       \<noteq> page0\<lparr>currentFile := Some photo, formatSelect := ''heic''\<rparr>
   \<and> issued (page0\<lparr>currentFile := Some photo, formatSelect := ''heic''\<rparr>)
        (convertImage (page0\<lparr>currentFile := Some photo, formatSelect := ''heic''\<rparr>))
       = [UpdateProgress 20 ''Loading image...'', ReadAsDataURL photo]"
  by (simp add: supportedFormats_def convertImage_def issued_def page0_def dom_defs)

text \<open>
  Claim C5, amended. \<^verbatim>\<open>convertImage\<close> leaves the whole state as it is, the journal of host
  calls included, exactly when no file is held or the selected format is the empty string.
\<close>

theorem convertImage_noop_iff:
  "convertImage s = s \<longleftrightarrow> currentFile s = None \<or> formatSelect s = ''''"
proof
  assume e: "convertImage s = s"
  show "currentFile s = None \<or> formatSelect s = ''''"
  proof (rule ccontr)
    assume "\<not> (currentFile s = None \<or> formatSelect s = '''')"
    then obtain f where "currentFile s = Some f" and "formatSelect s \<noteq> ''''"
      by auto
    from convertImage_journal [OF this] e show False
      by simp
  qed
next
  assume "currentFile s = None \<or> formatSelect s = ''''"
  then show "convertImage s = s"
    by (auto simp: convertImage_def split: option.splits)
qed

theorem convertImage_noop_iff_witness:
  "currentFile page0 = None \<and> convertImage page0 = page0
   \<and> formatSelect (page0\<lparr>currentFile := Some photo\<rparr>) = ''''
   \<and> convertImage (page0\<lparr>currentFile := Some photo\<rparr>) = page0\<lparr>currentFile := Some photo\<rparr>"
proof -
  have a: "currentFile page0 = None"
    by (simp add: page0_def)
  have b: "formatSelect (page0\<lparr>currentFile := Some photo\<rparr>) = ''''"
    by (simp add: page0_def)
  show ?thesis
    using a b convertImage_noop_iff [of page0]
      convertImage_noop_iff [of "page0\<lparr>currentFile := Some photo\<rparr>"]
    by simp
qed

text \<open>
  Claim C6. In \<^verbatim>\<open>img.onload\<close> the canvas is sized to the image; then, exactly when the
  format is \<^verbatim>\<open>jpeg\<close>, the fill style is set to white and the whole canvas is filled; then
  the image is drawn at (0,0). For any other format the drawing follows the sizing with no
  fill in between.
\<close>

theorem img_onload_prefill:
  "issued s (img_onload format quality img url s) =
     [CanvasSize (img_width img) (img_height img), UpdateProgress 50 ''Processing image...'']
     @ (if format = ''jpeg''
        then [FillStyle ''white'', FillRect 0 0 (img_width img) (img_height img)]
        else [])
     @ [DrawImage img 0 0, UpdateProgress 80 ''Converting format...'',
        ToDataURL (mimeType format) quality, UpdateProgress 100 ''Complete!'',
        SetTimeout 500]"
  by (simp add: issued_def img_onload_def Let_def dom_defs)

text \<open>
  Claim C8. A run of the conversion that starts with a file held and a format selected, and
  in which the read, the decoding and the encoding succeed, ends in a state; the host calls
  of the run are, in this order, the report of 20, the read of the file, the assignment of
  the image source, the sizing of the canvas, the report of 50, the fill (for \<^verbatim>\<open>jpeg\<close>), the
  drawing, the report of 80, the encoding, the report of 100 and the timer. The percentages
  reported are 20, 50, 80, 100 and no others.
\<close>

theorem convert_run_progress:
  assumes "currentFile s = Some f" and "formatSelect s \<noteq> ''''"
  shows "\<exists>s'. convert_run result img url s = Inr s'
     \<and> issued s s' =
         [UpdateProgress 20 ''Loading image...'', ReadAsDataURL f, ImgSrc result,
          CanvasSize (img_width img) (img_height img),
          UpdateProgress 50 ''Processing image...'']
         @ (if formatSelect s = ''jpeg''
            then [FillStyle ''white'', FillRect 0 0 (img_width img) (img_height img)]
            else [])
         @ [DrawImage img 0 0, UpdateProgress 80 ''Converting format...'',
            ToDataURL (mimeType (formatSelect s)) (qualitySlider s / 100),
            UpdateProgress 100 ''Complete!'', SetTimeout 500]
     \<and> percentages (issued s s') = [20, 50, 80, 100]
     \<and> progressBar s' = 100"
  using assms
  by (simp add: convert_run_def showDownload_def img_onload_def reader_onload_def
      convertImage_def issued_def Let_def dom_defs)

theorem convert_run_progress_witness:
  "currentFile (page0\<lparr>currentFile := Some photo, formatSelect := ''webp''\<rparr>) = Some photo
   \<and> formatSelect (page0\<lparr>currentFile := Some photo, formatSelect := ''webp''\<rparr>) \<noteq> ''''
   \<and> (\<exists>s'. convert_run ''data:image/png;base64,'' \<lparr>img_width = 100, img_height = 100\<rparr>
              ''data:image/webp;base64,''
              (page0\<lparr>currentFile := Some photo, formatSelect := ''webp''\<rparr>) = Inr s'
         \<and> percentages
              (issued (page0\<lparr>currentFile := Some photo, formatSelect := ''webp''\<rparr>) s')
            = [20, 50, 80, 100])"
proof -
  have a: "currentFile (page0\<lparr>currentFile := Some photo, formatSelect := ''webp''\<rparr>) = Some photo"
    by simp
  have b: "formatSelect (page0\<lparr>currentFile := Some photo, formatSelect := ''webp''\<rparr>) \<noteq> ''''"
    by simp
  from convert_run_progress [OF a b, of "''data:image/png;base64,''"
      "\<lparr>img_width = 100, img_height = 100\<rparr>" "''data:image/webp;base64,''"]
  obtain s' where
    "convert_run ''data:image/png;base64,'' \<lparr>img_width = 100, img_height = 100\<rparr>
       ''data:image/webp;base64,''
       (page0\<lparr>currentFile := Some photo, formatSelect := ''webp''\<rparr>) = Inr s'"
    and "percentages
       (issued (page0\<lparr>currentFile := Some photo, formatSelect := ''webp''\<rparr>) s')
       = [20, 50, 80, 100]"
    by blast
  with a b show ?thesis
    by blast
qed

end
